theory Spec2Isabelle
  imports Complex_Main "HOL-Library.Word"
begin

section \<open>The clipboard manager of utils/clipboard\_manager.py\<close>

text \<open>
  The module is a facade over three external libraries: pyperclip (the fast text
  library), pywin32's win32clipboard (the native API) and tkinter (the GUI toolkit),
  plus PIL and numpy for images. None of them is part of the repository, so the
  libraries are modelled as an explicit environment: a \<open>world\<close> record holding the
  state of the operating system clipboard, and one primitive per library call. Every
  primitive can raise; exceptions are values of type \<open>exn\<close> and every
  \<open>try\<close>/\<open>except\<close>/\<open>finally\<close> of the source is a case distinction of the model.
  The \<open>print\<close> statements of the source only write diagnostics to standard output and
  are left out.
\<close>

subsection \<open>Values, exceptions and the outside world\<close>

type_synonym byte = "8 word"

datatype exn =
    ImportError | PyWinError | TclError | AttributeError
  | TypeError | ValueError | IndexError | OSError | SystemError | PyperclipException

text \<open>The arguments a caller can hand to \<open>save_text\<close>; only \<open>PStr\<close> is a \<open>str\<close>.\<close>

datatype pyval = PStr string | PBytes "byte list" | PInt int | PBool bool | PNone

fun isinstance_str :: "pyval \<Rightarrow> bool" where
  "isinstance_str (PStr _) = True"
| "isinstance_str _ = False"

text \<open>What the operating system clipboard holds.\<close>

datatype clip_content = NoContent | TextContent string | DibContent "byte list"

text \<open>Every call that crosses into one of the three backends.\<close>

datatype call =
    COpenClipboard | CEmptyClipboard | CSetClipboardText string
  | CSetClipboardData_DIB "byte list" | CIsClipboardFormatAvailable
  | CGetClipboardData | CCloseClipboard
  | CPyperclipCopy string | CPyperclipPaste
  | CTk | CTkWithdraw nat | CTkClipboardClear nat | CTkClipboardAppend nat string
  | CTkUpdate nat | CTkClipboardGet nat | CTkDestroy nat

datatype backend = FastTextLib | NativeApi | GuiToolkit

fun backend_of :: "call \<Rightarrow> backend" where
  "backend_of (CPyperclipCopy _) = FastTextLib"
| "backend_of CPyperclipPaste = FastTextLib"
| "backend_of CTk = GuiToolkit"
| "backend_of (CTkWithdraw _) = GuiToolkit"
| "backend_of (CTkClipboardClear _) = GuiToolkit"
| "backend_of (CTkClipboardAppend _ _) = GuiToolkit"
| "backend_of (CTkUpdate _) = GuiToolkit"
| "backend_of (CTkClipboardGet _) = GuiToolkit"
| "backend_of (CTkDestroy _) = GuiToolkit"
| "backend_of _ = NativeApi"

text \<open>
  The world outside the manager. \<open>lock_held\<close>: this process has the clipboard open
  (the system-wide clipboard lock). \<open>windows\<close>: the handles of the Tk root windows that
  are alive. \<open>calls\<close>: the trace of backend calls issued so far, oldest first, each
  with whether it returned normally. \<open>faults\<close>: a schedule telling, for each coming
  backend call, whether the library raises there for a reason of its own (the head is
  for the next call; an exhausted schedule means no more such failures).
  \<open>objects\<close>: how many \<open>ClipboardManager\<close> objects have been constructed.
\<close>

record world =
  lock_held :: bool
  clip :: clip_content
  windows :: "nat list"
  next_window :: nat
  calls :: "(call \<times> bool) list"
  faults :: "bool list"
  objects :: nat

type_synonym 'a io = "world \<Rightarrow> (exn + 'a) \<times> world"

definition return_io :: "'a \<Rightarrow> 'a io" where
  "return_io x w = (Inr x, w)"

definition raise_io :: "exn \<Rightarrow> 'a io" where
  "raise_io e w = (Inl e, w)"

definition bind_io :: "'a io \<Rightarrow> ('a \<Rightarrow> 'b io) \<Rightarrow> 'b io" where
  "bind_io f g w = (case f w of (Inl e, w') \<Rightarrow> (Inl e, w') | (Inr x, w') \<Rightarrow> g x w')"

text \<open>
  Python's \<open>try: body finally: fin\<close>: \<open>fin\<close> runs however \<open>body\<close> ends; an exception of
  \<open>fin\<close> replaces the outcome of \<open>body\<close>.
\<close>

definition try_finally :: "'a io \<Rightarrow> unit io \<Rightarrow> 'a io" where
  "try_finally body fin w =
     (case body w of (r, w1) \<Rightarrow>
        (case fin w1 of (Inl e, w2) \<Rightarrow> (Inl e, w2) | (Inr _, w2) \<Rightarrow> (r, w2)))"

text \<open>
  One backend call \<open>c\<close>: it raises \<open>e\<close>, leaving the clipboard as it is, when the fault
  schedule says so or when its precondition \<open>pre\<close> fails; otherwise it returns \<open>res\<close>
  and has the effect \<open>eff\<close>. Either way the call is recorded in the trace.
\<close>

definition extcall ::
  "call \<Rightarrow> exn \<Rightarrow> (world \<Rightarrow> bool) \<Rightarrow> (world \<Rightarrow> 'a) \<Rightarrow> (world \<Rightarrow> world) \<Rightarrow> 'a io" where
  "extcall c e pre res eff w =
     (let failing = (case faults w of [] \<Rightarrow> False | f # _ \<Rightarrow> f);
          w0 = w\<lparr>faults := tl (faults w)\<rparr>
      in if failing \<or> \<not> pre w
         then (Inl e, w0\<lparr>calls := calls w @ [(c, False)]\<rparr>)
         else (Inr (res w), (eff w0)\<lparr>calls := calls w @ [(c, True)]\<rparr>))"

subsection \<open>win32clipboard\<close>

text \<open>
  The native calls other than open and the format query need the clipboard to be open
  by this process; pywin32 raises when the underlying API reports failure.
\<close>

definition OpenClipboard :: "unit io" where
  "OpenClipboard =
     extcall COpenClipboard PyWinError (\<lambda>_. True) (\<lambda>_. ()) (\<lambda>w. w\<lparr>lock_held := True\<rparr>)"

definition EmptyClipboard :: "unit io" where
  "EmptyClipboard =
     extcall CEmptyClipboard PyWinError lock_held (\<lambda>_. ()) (\<lambda>w. w\<lparr>clip := NoContent\<rparr>)"

definition SetClipboardText :: "string \<Rightarrow> unit io" where
  "SetClipboardText text =
     extcall (CSetClipboardText text) PyWinError lock_held (\<lambda>_. ())
       (\<lambda>w. w\<lparr>clip := TextContent text\<rparr>)"

definition SetClipboardData_DIB :: "byte list \<Rightarrow> unit io" where
  "SetClipboardData_DIB d =
     extcall (CSetClipboardData_DIB d) PyWinError lock_held (\<lambda>_. ())
       (\<lambda>w. w\<lparr>clip := DibContent d\<rparr>)"

definition IsClipboardFormatAvailable_UNICODETEXT :: "bool io" where
  "IsClipboardFormatAvailable_UNICODETEXT =
     extcall CIsClipboardFormatAvailable PyWinError (\<lambda>_. True)
       (\<lambda>w. case clip w of TextContent _ \<Rightarrow> True | _ \<Rightarrow> False) (\<lambda>w. w)"

definition GetClipboardData_UNICODETEXT :: "string io" where
  "GetClipboardData_UNICODETEXT =
     extcall CGetClipboardData PyWinError
       (\<lambda>w. lock_held w \<and> (case clip w of TextContent _ \<Rightarrow> True | _ \<Rightarrow> False))
       (\<lambda>w. case clip w of TextContent s \<Rightarrow> s | _ \<Rightarrow> []) (\<lambda>w. w)"

definition CloseClipboard :: "unit io" where
  "CloseClipboard =
     extcall CCloseClipboard PyWinError lock_held (\<lambda>_. ()) (\<lambda>w. w\<lparr>lock_held := False\<rparr>)"

subsection \<open>pyperclip\<close>

text \<open>
  \<open>copy\<close> replaces the clipboard by the text. \<open>paste\<close> always returns a \<open>str\<close>: the
  clipboard text, or the empty string when the clipboard holds no text.
\<close>

definition pyperclip_copy :: "string \<Rightarrow> unit io" where
  "pyperclip_copy text =
     extcall (CPyperclipCopy text) PyperclipException (\<lambda>_. True) (\<lambda>_. ())
       (\<lambda>w. w\<lparr>clip := TextContent text\<rparr>)"

definition pyperclip_paste :: "string io" where
  "pyperclip_paste =
     extcall CPyperclipPaste PyperclipException (\<lambda>_. True)
       (\<lambda>w. case clip w of TextContent s \<Rightarrow> s | _ \<Rightarrow> []) (\<lambda>w. w)"

subsection \<open>tkinter\<close>

text \<open>
  \<open>tk.Tk()\<close> creates a root window with a fresh handle. A method of a root raises
  \<open>TclError\<close> once the root has been destroyed; a method call on \<open>None\<close> raises
  \<open>AttributeError\<close> before any toolkit call is made. \<open>clipboard_get\<close> raises when the
  clipboard holds no text.
\<close>

definition tk_Tk :: "nat io" where
  "tk_Tk =
     extcall CTk TclError (\<lambda>_. True) next_window
       (\<lambda>w. w\<lparr>windows := next_window w # windows w, next_window := Suc (next_window w)\<rparr>)"

definition tk_method ::
  "(nat \<Rightarrow> call) \<Rightarrow> nat option \<Rightarrow> (world \<Rightarrow> bool) \<Rightarrow> (world \<Rightarrow> 'a) \<Rightarrow> (world \<Rightarrow> world) \<Rightarrow> 'a io" where
  "tk_method c tkroot pre res eff =
     (case tkroot of
        None \<Rightarrow> raise_io AttributeError
      | Some h \<Rightarrow> extcall (c h) TclError (\<lambda>w. h \<in> set (windows w) \<and> pre w) res eff)"

definition tk_withdraw :: "nat option \<Rightarrow> unit io" where
  "tk_withdraw tkroot = tk_method CTkWithdraw tkroot (\<lambda>_. True) (\<lambda>_. ()) (\<lambda>w. w)"

definition tk_clipboard_clear :: "nat option \<Rightarrow> unit io" where
  "tk_clipboard_clear tkroot =
     tk_method CTkClipboardClear tkroot (\<lambda>_. True) (\<lambda>_. ()) (\<lambda>w. w\<lparr>clip := NoContent\<rparr>)"

definition tk_clipboard_append :: "nat option \<Rightarrow> string \<Rightarrow> unit io" where
  "tk_clipboard_append tkroot text =
     tk_method (\<lambda>h. CTkClipboardAppend h text) tkroot (\<lambda>_. True) (\<lambda>_. ())
       (\<lambda>w. w\<lparr>clip := TextContent ((case clip w of TextContent s \<Rightarrow> s | _ \<Rightarrow> []) @ text)\<rparr>)"

definition tk_update :: "nat option \<Rightarrow> unit io" where
  "tk_update tkroot = tk_method CTkUpdate tkroot (\<lambda>_. True) (\<lambda>_. ()) (\<lambda>w. w)"

definition tk_clipboard_get :: "nat option \<Rightarrow> string io" where
  "tk_clipboard_get tkroot =
     tk_method CTkClipboardGet tkroot
       (\<lambda>w. case clip w of TextContent _ \<Rightarrow> True | _ \<Rightarrow> False)
       (\<lambda>w. case clip w of TextContent s \<Rightarrow> s | _ \<Rightarrow> []) (\<lambda>w. w)"

definition tk_destroy :: "nat option \<Rightarrow> unit io" where
  "tk_destroy tkroot =
     (case tkroot of
        None \<Rightarrow> raise_io AttributeError
      | Some h \<Rightarrow> extcall (CTkDestroy h) TclError (\<lambda>w. h \<in> set (windows w)) (\<lambda>_. ())
          (\<lambda>w. w\<lparr>windows := removeAll h (windows w)\<rparr>))"

subsection \<open>PIL images and numpy arrays\<close>

text \<open>
  An image as PIL holds it: a mode, a size and the pixel data, row-major with the bands
  interleaved. The modes modelled are the 8-bit ones that \<open>Image.fromarray\<close> produces
  (L, LA, RGB, RGBA), whose data are the bytes \<open>pixels\<close>, and the two single-band
  numeric modes I (32-bit integer) and F (floating point), whose data are the numbers
  \<open>numbers\<close>. PIL decodes lazily, so an image object can exist whose pixel data
  cannot be loaded (a truncated file): that is an image that is not \<open>loadable\<close>, and
  \<open>convert\<close> and \<open>save\<close> raise on it.
\<close>

datatype image_mode = RGB | RGBA | L | LA | ModeI | ModeF

record pil_image =
  mode :: image_mode
  width :: nat
  height :: nat
  pixels :: "byte list"
  numbers :: "real list"

fun channels :: "image_mode \<Rightarrow> nat" where
  "channels RGB = 3"
| "channels RGBA = 4"
| "channels L = 1"
| "channels LA = 2"
| "channels ModeI = 1"
| "channels ModeF = 1"

definition loadable :: "pil_image \<Rightarrow> bool" where
  "loadable img \<longleftrightarrow>
     (if mode img = ModeI \<or> mode img = ModeF then length (numbers img)
      else length (pixels img))
     = width img * height img * channels (mode img)"

fun rgba_to_rgb :: "byte list \<Rightarrow> byte list" where
  "rgba_to_rgb (r # g # b # a # rest) = r # g # b # rgba_to_rgb rest"
| "rgba_to_rgb _ = []"

definition l_to_rgb :: "byte list \<Rightarrow> byte list" where
  "l_to_rgb px = concat (map (\<lambda>v. [v, v, v]) px)"

fun la_to_rgb :: "byte list \<Rightarrow> byte list" where
  "la_to_rgb (v # a # rest) = v # v # v # la_to_rgb rest"
| "la_to_rgb _ = []"

text \<open>
  PIL's conversion of a number of mode I or F to eight bits: values up to 0 give 0,
  values from 255 on give 255, the fractional part of the others is discarded.
\<close>

definition clip8 :: "real \<Rightarrow> byte" where
  "clip8 v = (if v \<le> 0 then 0 else if 255 \<le> v then 255 else word_of_int \<lfloor>v\<rfloor>)"

text \<open>\<open>image.convert('RGB')\<close>\<close>

definition image_convert_RGB :: "pil_image \<Rightarrow> exn + pil_image" where
  "image_convert_RGB img =
     (if \<not> loadable img then Inl OSError
      else Inr (img\<lparr>mode := RGB,
                    pixels := (case mode img of
                                 RGB \<Rightarrow> pixels img
                               | RGBA \<Rightarrow> rgba_to_rgb (pixels img)
                               | L \<Rightarrow> l_to_rgb (pixels img)
                               | LA \<Rightarrow> la_to_rgb (pixels img)
                               | ModeI \<Rightarrow> l_to_rgb (map clip8 (numbers img))
                               | ModeF \<Rightarrow> l_to_rgb (map clip8 (numbers img))),
                    numbers := []\<rparr>))"

text \<open>
  PIL's BMP writer for mode RGB: the 14-byte file header, the 40-byte
  BITMAPINFOHEADER, then the rows bottom-up, each pixel as blue, green, red, each row
  padded with zeros to a multiple of four bytes. Numbers are little-endian.
\<close>

definition o16 :: "nat \<Rightarrow> byte list" where
  "o16 n = [word_of_nat n, word_of_nat (n div 256)]"

definition o32 :: "nat \<Rightarrow> byte list" where
  "o32 n = [word_of_nat n, word_of_nat (n div 256),
            word_of_nat (n div 65536), word_of_nat (n div 16777216)]"

definition bmp_stride :: "nat \<Rightarrow> nat" where
  "bmp_stride w = ((w * 24 + 7) div 8 + 3) div 4 * 4"

fun bgr :: "byte list \<Rightarrow> byte list" where
  "bgr (r # g # b # rest) = b # g # r # bgr rest"
| "bgr rest = rest"

definition bmp_row :: "nat \<Rightarrow> byte list \<Rightarrow> nat \<Rightarrow> byte list" where
  "bmp_row w px y =
     (let r = bgr (take (3 * w) (drop (y * (3 * w)) px))
      in r @ replicate (bmp_stride w - length r) 0)"

definition bmp_file_header :: "nat \<Rightarrow> nat \<Rightarrow> byte list" where
  "bmp_file_header offset isize =
     [0x42, 0x4D] @ o32 (offset + isize) @ o32 0 @ o32 offset"

definition bmp_info_header :: "nat \<Rightarrow> nat \<Rightarrow> nat \<Rightarrow> byte list" where
  "bmp_info_header w h isize =
     o32 40 @ o32 w @ o32 h @ o16 1 @ o16 24 @ o32 0 @ o32 isize
     @ o32 3780 @ o32 3780 @ o32 0 @ o32 0"

definition bmp_encode :: "pil_image \<Rightarrow> byte list" where
  "bmp_encode img =
     (let isize = bmp_stride (width img) * height img
      in bmp_file_header 54 isize
         @ bmp_info_header (width img) (height img) isize
         @ concat (map (bmp_row (width img) (pixels img)) (rev [0..<height img])))"

text \<open>
  \<open>image.save(output, 'BMP', compress_level=0)\<close> followed by \<open>output.getvalue()\<close>. The
  writer refuses an image with a side of length zero and a file of more than
  \<open>2^32 - 1\<close> bytes. The caller converts to RGB first, so the writer's other modes are
  never reached and are not modelled.
\<close>

definition image_save_BMP :: "pil_image \<Rightarrow> exn + byte list" where
  "image_save_BMP img =
     (if \<not> loadable img \<or> mode img \<noteq> RGB then Inl OSError
      else if width img = 0 \<or> height img = 0 then Inl SystemError
      else if 54 + bmp_stride (width img) * height img > 2 ^ 32 - 1 then Inl ValueError
      else Inr (bmp_encode img))"

text \<open>
  A numpy array: element type, shape and the samples in row-major order. Samples are
  finite numbers (NaN and the infinities are not modelled).
\<close>

datatype dtype = UInt8 | Int16 | Int32 | Int64 | Float32 | Float64

record ndarray =
  dtype :: dtype
  shape :: "nat list"
  samples :: "real list"

text \<open>\<open>np.clip(a, lo, hi)\<close> is \<open>minimum(maximum(a, lo), hi)\<close>, element by element.\<close>

definition np_clip :: "ndarray \<Rightarrow> real \<Rightarrow> real \<Rightarrow> ndarray" where
  "np_clip a lo hi = a\<lparr>samples := map (\<lambda>x. min (max x lo) hi) (samples a)\<rparr>"

text \<open>
  \<open>a.astype(np.uint8)\<close> is the C conversion: the fractional part is discarded and the
  integer is taken modulo 256.
\<close>

definition trunc_toward_zero :: "real \<Rightarrow> int" where
  "trunc_toward_zero x = (if 0 \<le> x then \<lfloor>x\<rfloor> else \<lceil>x\<rceil>)"

definition to_uint8 :: "real \<Rightarrow> byte" where
  "to_uint8 x = word_of_int (trunc_toward_zero x)"

definition astype_uint8 :: "ndarray \<Rightarrow> ndarray" where
  "astype_uint8 a =
     a\<lparr>dtype := UInt8, samples := map (\<lambda>x. real (unat (to_uint8 x))) (samples a)\<rparr>"

text \<open>
  \<open>Image.fromarray(a)\<close>. PIL looks the pair of the trailing shape and the element type
  up in a fixed table: a plane (one or two dimensions) of \<open>uint8\<close> gives mode L, of a
  16- or 32-bit integer type mode I, of a float type mode F; three dimensions are
  accepted for \<open>uint8\<close> only, with 2, 3 or 4 channels (LA, RGB, RGBA). Everything else
  raises \<open>TypeError\<close>; a zero-dimensional array fails when the size is read.
\<close>

definition array_image :: "image_mode \<Rightarrow> nat \<Rightarrow> nat \<Rightarrow> ndarray \<Rightarrow> pil_image" where
  "array_image md w h a =
     \<lparr>mode = md, width = w, height = h,
      pixels = (if md = ModeI \<or> md = ModeF then [] else map to_uint8 (samples a)),
      numbers = (if md = ModeI \<or> md = ModeF then samples a else [])\<rparr>"

definition plane_image :: "nat \<Rightarrow> nat \<Rightarrow> ndarray \<Rightarrow> exn + pil_image" where
  "plane_image w h a =
     (case dtype a of
        UInt8 \<Rightarrow> Inr (array_image L w h a)
      | Int16 \<Rightarrow> Inr (array_image ModeI w h a)
      | Int32 \<Rightarrow> Inr (array_image ModeI w h a)
      | Int64 \<Rightarrow> Inl TypeError
      | Float32 \<Rightarrow> Inr (array_image ModeF w h a)
      | Float64 \<Rightarrow> Inr (array_image ModeF w h a))"

definition image_fromarray :: "ndarray \<Rightarrow> exn + pil_image" where
  "image_fromarray a =
     (case shape a of
        [] \<Rightarrow> Inl IndexError
      | [h] \<Rightarrow> plane_image 1 h a
      | [h, w] \<Rightarrow> plane_image w h a
      | [h, w, c] \<Rightarrow>
          (if dtype a = UInt8 \<and> c = 2 then Inr (array_image LA w h a)
           else if dtype a = UInt8 \<and> c = 3 then Inr (array_image RGB w h a)
           else if dtype a = UInt8 \<and> c = 4 then Inr (array_image RGBA w h a)
           else Inl TypeError)
      | _ \<Rightarrow> Inl TypeError)"

text \<open>
  What the host provides: which libraries can be imported, the numpy version as the
  pair (major, minor) that the source computes, and PIL's file decoders, which are
  taken as parameters.
\<close>

record host =
  win32_installed :: bool
  pyperclip_installed :: bool
  tkinter_installed :: bool
  np_version :: "nat \<times> nat"
  image_open_path :: "string \<Rightarrow> exn + pil_image"
  image_open_bytes :: "byte list \<Rightarrow> exn + pil_image"

text \<open>Python compares tuples lexicographically.\<close>

fun tuple_ge :: "nat \<times> nat \<Rightarrow> nat \<times> nat \<Rightarrow> bool" where
  "tuple_ge (a, b) (c, d) = (a > c \<or> (a = c \<and> b \<ge> d))"

subsection \<open>ClipboardManager\<close>

text \<open>
  The attributes that \<open>__init__\<close> sets; no other method assigns to \<open>self\<close>, so a
  manager is an immutable value after construction. \<open>tk_root\<close> is the handle of the
  hidden Tk root, or \<open>None\<close>. \<open>obj_id\<close> is the identity of the object.
\<close>

record manager =
  has_win32 :: bool
  has_pyperclip :: bool
  has_tkinter :: bool
  tk_root :: "nat option"
  obj_id :: nat


text \<open>
  \<open>save_text\<close>: the type check, then the first available backend of the chain inside
  one \<open>try\<close>; any exception gives \<open>False\<close>.
\<close>

definition save_text :: "manager \<Rightarrow> pyval \<Rightarrow> world \<Rightarrow> bool \<times> world" where
  "save_text m v w =
     (case v of
        PStr text \<Rightarrow>
          (case (if has_pyperclip m then
                   bind_io (pyperclip_copy text) (\<lambda>_. return_io True)
                 else if has_win32 m then
                   bind_io OpenClipboard (\<lambda>_.
                   bind_io EmptyClipboard (\<lambda>_.
                   bind_io (SetClipboardText text) (\<lambda>_.
                   bind_io CloseClipboard (\<lambda>_. return_io True))))
                 else if has_tkinter m then
                   bind_io (tk_clipboard_clear (tk_root m)) (\<lambda>_.
                   bind_io (tk_clipboard_append (tk_root m) text) (\<lambda>_.
                   bind_io (tk_update (tk_root m)) (\<lambda>_. return_io True)))
                 else return_io False) w of
             (Inl e, w') \<Rightarrow> (False, w')
           | (Inr r, w') \<Rightarrow> (r, w'))
      | _ \<Rightarrow> (False, w))"

text \<open>The image handed to \<open>save_image\<close>, by the type tests of \<open>_convert_to_pil\<close>.\<close>

datatype image_input =
    ImgPil pil_image | ImgStr string | ImgBytes "byte list" | ImgArray ndarray | ImgOther

text \<open>
  The array that \<open>_convert_to_pil\<close> hands to \<open>Image.fromarray\<close>: the input itself under
  numpy 2.x and for \<open>uint8\<close>, the clipped and cast copy otherwise.
\<close>

definition fromarray_input :: "nat \<times> nat \<Rightarrow> ndarray \<Rightarrow> ndarray" where
  "fromarray_input np_ver image_data =
     (if tuple_ge np_ver (2, 0) then image_data
      else if dtype image_data = UInt8 then image_data
      else astype_uint8 (np_clip image_data 0 255))"

definition convert_to_pil :: "host \<Rightarrow> image_input \<Rightarrow> pil_image option" where
  "convert_to_pil h image_data =
     (case (case image_data of
              ImgPil img \<Rightarrow> Inr (Some img)
            | ImgStr path \<Rightarrow> map_sum id Some (image_open_path h path)
            | ImgBytes b \<Rightarrow> map_sum id Some (image_open_bytes h b)
            | ImgArray a \<Rightarrow> map_sum id Some (image_fromarray (fromarray_input (np_version h) a))
            | ImgOther \<Rightarrow> Inr None) of
        Inl e \<Rightarrow> None
      | Inr r \<Rightarrow> r)"

definition pure_io :: "exn + 'a \<Rightarrow> 'a io" where
  "pure_io r w = (r, w)"

text \<open>
  \<open>_save_image_windows\<close>: the availability guard, then conversion, encoding and the
  open/empty/set/close sequence in one \<open>try\<close>; the handler attempts
  \<open>CloseClipboard\<close> and swallows its failure.
\<close>

definition save_image_windows :: "manager \<Rightarrow> pil_image \<Rightarrow> world \<Rightarrow> bool \<times> world" where
  "save_image_windows m img w =
     (if \<not> has_win32 m then (False, w)
      else
        (case bind_io (pure_io (if mode img \<noteq> RGB then image_convert_RGB img else Inr img)) (\<lambda>img'.
              bind_io (pure_io (image_save_BMP img')) (\<lambda>bmp_data.
              bind_io OpenClipboard (\<lambda>_.
              bind_io EmptyClipboard (\<lambda>_.
              bind_io (SetClipboardData_DIB (drop 14 bmp_data)) (\<lambda>_.
              bind_io CloseClipboard (\<lambda>_. return_io True)))))) w of
           (Inr r, w') \<Rightarrow> (r, w')
         | (Inl e, w') \<Rightarrow> (case CloseClipboard w' of (_, w'') \<Rightarrow> (False, w''))))"

text \<open>
  \<open>save_image\<close>. Both callees catch every exception themselves, so the outer handler
  of the source has nothing left to catch.
\<close>

definition save_image :: "host \<Rightarrow> manager \<Rightarrow> image_input \<Rightarrow> world \<Rightarrow> bool \<times> world" where
  "save_image h m image_data w =
     (case convert_to_pil h image_data of
        None \<Rightarrow> (False, w)
      | Some pil_image \<Rightarrow> save_image_windows m pil_image w)"

text \<open>
  \<open>get_text\<close>. The native block returns from inside \<open>try\<close>/\<open>finally\<close> only when the text
  format is available (\<open>Some\<close> of the value returned); otherwise control leaves the
  block normally (\<open>None\<close>) and goes on to the tkinter block.
\<close>

definition get_text :: "manager \<Rightarrow> world \<Rightarrow> string option \<times> world" where
  "get_text m w =
     (case (if has_pyperclip m then
              bind_io pyperclip_paste (\<lambda>s. return_io (Some s))
            else
              bind_io
                (if has_win32 m then
                   bind_io OpenClipboard (\<lambda>_.
                     try_finally
                       (bind_io IsClipboardFormatAvailable_UNICODETEXT (\<lambda>avail.
                          if avail then
                            bind_io GetClipboardData_UNICODETEXT (\<lambda>data.
                              return_io (Some (if data \<noteq> [] then Some data else None)))
                          else return_io None))
                       CloseClipboard)
                 else return_io None)
                (\<lambda>returned.
                   case returned of
                     Some r \<Rightarrow> return_io r
                   | None \<Rightarrow>
                       if has_tkinter m then
                         (\<lambda>w1. case tk_clipboard_get (tk_root m) w1 of
                                  (Inl e, w2) \<Rightarrow> (Inr None, w2)
                                | (Inr s, w2) \<Rightarrow> (Inr (Some s), w2))
                       else return_io None)) w of
        (Inl e, w') \<Rightarrow> (None, w')
      | (Inr r, w') \<Rightarrow> (r, w'))"

definition clear :: "manager \<Rightarrow> world \<Rightarrow> bool \<times> world" where
  "clear m w =
     (if has_win32 m then
        (case bind_io OpenClipboard (\<lambda>_.
              bind_io EmptyClipboard (\<lambda>_.
              bind_io CloseClipboard (\<lambda>_. return_io True))) w of
           (Inl e, w') \<Rightarrow> (False, w')
         | (Inr r, w') \<Rightarrow> (r, w'))
      else save_text m (PStr []) w)"

text \<open>
  \<open>close\<close>: \<open>_tk_root\<close> is truthy exactly when it is a Tk object; \<open>destroy()\<close> is
  attempted and its failure swallowed. The attribute is not reset.
\<close>

definition close :: "manager \<Rightarrow> world \<Rightarrow> world" where
  "close m w =
     (case tk_root m of
        None \<Rightarrow> w
      | Some r \<Rightarrow> (case tk_destroy (Some r) w of (_, w') \<Rightarrow> w'))"

subsection \<open>The module-level singleton and the convenience functions\<close>











subsection \<open>Notions used to state the properties\<close>

text \<open>The backend calls issued between two worlds of one run.\<close>

definition issued :: "world \<Rightarrow> world \<Rightarrow> (call \<times> bool) list" where
  "issued w w' = drop (length (calls w)) (calls w')"

text \<open>
  The text backend by the fixed priority order of the specification: the first
  available one of fastTextLib, nativeApi, guiToolkit.
\<close>

definition available :: "manager \<Rightarrow> backend \<Rightarrow> bool" where
  "available m b =
     (case b of FastTextLib \<Rightarrow> has_pyperclip m | NativeApi \<Rightarrow> has_win32 m
              | GuiToolkit \<Rightarrow> has_tkinter m)"

definition text_backend :: "manager \<Rightarrow> backend option" where
  "text_backend m = find (available m) [FastTextLib, NativeApi, GuiToolkit]"

text \<open>
  The sample conversion in the words of the specification: clamp to the inclusive
  range from 0 to 255, then truncate toward zero.
\<close>

definition clamp_0_255 :: "real \<Rightarrow> real" where
  "clamp_0_255 x = (if x < 0 then 0 else if 255 < x then 255 else x)"

definition clip_then_truncate :: "real \<Rightarrow> nat" where
  "clip_then_truncate x =
     (let c = clamp_0_255 x in nat (if c < 0 then - \<lfloor>- c\<rfloor> else \<lfloor>c\<rfloor>))"

text \<open>How many times a root window was really destroyed in a trace.\<close>

definition releases :: "(call \<times> bool) list \<Rightarrow> nat" where
  "releases tr = length (filter (\<lambda>(c, ok). ok \<and> (case c of CTkDestroy _ \<Rightarrow> True | _ \<Rightarrow> False)) tr)"

text \<open>Sample managers, worlds and hosts.\<close>

definition mgr :: "bool \<Rightarrow> bool \<Rightarrow> nat option \<Rightarrow> manager" where
  "mgr pyperclip win32 tk =
     \<lparr>has_win32 = win32, has_pyperclip = pyperclip,
      has_tkinter = (tk \<noteq> None), tk_root = tk, obj_id = 0\<rparr>"

definition idle_world :: "clip_content \<Rightarrow> bool list \<Rightarrow> world" where
  "idle_world c fs =
     \<lparr>lock_held = False, clip = c, windows = [0], next_window = 1,
      calls = [], faults = fs, objects = 1\<rparr>"


definition sample_host :: "nat \<times> nat \<Rightarrow> host" where
  "sample_host v =
     \<lparr>win32_installed = True, pyperclip_installed = True, tkinter_installed = True,
      np_version = v,
      image_open_path = (\<lambda>_. Inl OSError),
      image_open_bytes = (\<lambda>_. Inl OSError)\<rparr>"

text \<open>One pixel of three float channels.\<close>

definition float_pixel :: ndarray where
  "float_pixel = \<lparr>dtype = Float64, shape = [1, 1, 3], samples = [300.7, - 5.2, 127.9]\<rparr>"

definition black_image :: "nat \<Rightarrow> nat \<Rightarrow> pil_image" where
  "black_image w h =
     \<lparr>mode = RGB, width = w, height = h, pixels = replicate (w * h * 3) 0, numbers = []\<rparr>"

text \<open>
  A file that \<open>Image.open\<close> accepts on its header but whose pixel data are cut off, and
  a host on which every path names such a file.
\<close>

definition truncated_image :: pil_image where
  "truncated_image = \<lparr>mode = RGB, width = 2, height = 2, pixels = [], numbers = []\<rparr>"

definition lazy_host :: host where
  "lazy_host = (sample_host (2, 3))\<lparr>image_open_path := (\<lambda>_. Inr truncated_image)\<rparr>"

text \<open>
  The calls that one write of a text through the chosen backend consists of, in order.
\<close>

definition write_script :: "manager \<Rightarrow> string \<Rightarrow> call list" where
  "write_script m t =
     (case text_backend m of
        None \<Rightarrow> []
      | Some FastTextLib \<Rightarrow> [CPyperclipCopy t]
      | Some NativeApi \<Rightarrow>
          [COpenClipboard, CEmptyClipboard, CSetClipboardText t, CCloseClipboard]
      | Some GuiToolkit \<Rightarrow>
          (case tk_root m of
             None \<Rightarrow> []
           | Some h \<Rightarrow> [CTkClipboardClear h, CTkClipboardAppend h t, CTkUpdate h]))"

text \<open>
  The conversion to RGB and the encoding that \<open>_save_image_windows\<close> performs on the
  image before it touches the clipboard: the payload, or the exception raised.
\<close>

definition encode_dib :: "pil_image \<Rightarrow> exn + byte list" where
  "encode_dib img =
     (case (if mode img \<noteq> RGB then image_convert_RGB img else Inr img) of
        Inl e \<Rightarrow> Inl e
      | Inr img' \<Rightarrow>
          (case image_save_BMP img' of Inl e \<Rightarrow> Inl e | Inr bmp_data \<Rightarrow> Inr (drop 14 bmp_data)))"



section \<open>Properties\<close>

lemmas io_defs = return_io_def raise_io_def bind_io_def try_finally_def extcall_def pure_io_def

lemmas win32_defs = OpenClipboard_def EmptyClipboard_def SetClipboardText_def
  SetClipboardData_DIB_def IsClipboardFormatAvailable_UNICODETEXT_def
  GetClipboardData_UNICODETEXT_def CloseClipboard_def

lemmas tk_defs = tk_Tk_def tk_method_def tk_withdraw_def tk_clipboard_clear_def
  tk_clipboard_append_def tk_update_def tk_clipboard_get_def tk_destroy_def

lemmas pyperclip_defs = pyperclip_copy_def pyperclip_paste_def

lemma text_backend_simps:
  "has_pyperclip m \<Longrightarrow> text_backend m = Some FastTextLib"
  "\<not> has_pyperclip m \<Longrightarrow> has_win32 m \<Longrightarrow> text_backend m = Some NativeApi"
  "\<not> has_pyperclip m \<Longrightarrow> \<not> has_win32 m \<Longrightarrow> has_tkinter m \<Longrightarrow> text_backend m = Some GuiToolkit"
  "\<not> has_pyperclip m \<Longrightarrow> \<not> has_win32 m \<Longrightarrow> \<not> has_tkinter m \<Longrightarrow> text_backend m = None"
  by (simp_all add: text_backend_def available_def)

subsection \<open>The clipboard lock\<close>

text \<open>
  C1. Every operation that opens the native clipboard is to run the close step on every
  exit path, so that it never returns with the lock held. \<open>save_text\<close> on the native
  backend and \<open>clear\<close> do not: when \<open>EmptyClipboard\<close> raises after \<open>OpenClipboard\<close> has
  succeeded, the handler returns \<open>False\<close> without any \<open>CloseClipboard\<close> call and the
  lock stays held.
\<close>

theorem save_text_and_clear_leave_lock_held:
  "save_text (mgr False True None) (PStr ''x'') (idle_world NoContent [False, True]) =
     (False,
      \<lparr>lock_held = True, clip = NoContent, windows = [0], next_window = 1,
       calls = [(COpenClipboard, True), (CEmptyClipboard, False)],
       faults = [], objects = 1\<rparr>)
   \<and> clear (mgr False True None) (idle_world NoContent [False, True]) =
     (False,
      \<lparr>lock_held = True, clip = NoContent, windows = [0], next_window = 1,
       calls = [(COpenClipboard, True), (CEmptyClipboard, False)],
       faults = [], objects = 1\<rparr>)"
  by (simp add: save_text_def clear_def mgr_def idle_world_def io_defs win32_defs)

text \<open>
  The two sibling operations do run the close step. \<open>get_text\<close> returns with the lock
  held only if it was held on entry or a \<open>CloseClipboard\<close> call itself failed;
  \<open>_save_image_windows\<close>, once past its availability guard, only if the last call it
  issued was a \<open>CloseClipboard\<close> that failed.
\<close>

lemma get_text_releases_lock:
  "get_text m w = (r, w') \<Longrightarrow> lock_held w' \<Longrightarrow>
     lock_held w \<or> (CCloseClipboard, False) \<in> set (issued w w')"
  apply (cases "has_pyperclip m"; cases "has_win32 m"; cases "has_tkinter m"; cases "tk_root m")
                 apply (auto simp: get_text_def issued_def io_defs win32_defs tk_defs pyperclip_defs
      Let_def split: if_splits list.splits prod.splits sum.splits option.splits)
  done

lemma write_sequence_closes:
  "bind_io OpenClipboard (\<lambda>_.
     bind_io EmptyClipboard (\<lambda>_.
     bind_io (SetClipboardData_DIB d) (\<lambda>_.
     bind_io CloseClipboard (\<lambda>_. return_io True)))) w = (Inr r, w') \<Longrightarrow>
   \<not> lock_held w'"
  by (auto simp: io_defs win32_defs Let_def split: if_splits list.splits prod.splits sum.splits)

lemma CloseClipboard_outcome:
  "CloseClipboard w = (r, w') \<Longrightarrow> lock_held w' \<Longrightarrow>
     calls w' = calls w @ [(CCloseClipboard, False)]"
  by (auto simp: io_defs win32_defs Let_def split: if_splits list.splits)

lemma save_image_windows_releases_lock:
  assumes run: "save_image_windows m img w = (r, w')" and held: "lock_held w'"
  shows "\<not> has_win32 m \<and> lock_held w \<or> (\<exists>tr. calls w' = tr @ [(CCloseClipboard, False)])"
proof (cases "has_win32 m")
  case False
  with run held show ?thesis by (simp add: save_image_windows_def)
next
  case True
  define wr where "wr = (\<lambda>bmp_data.
              bind_io OpenClipboard (\<lambda>_.
              bind_io EmptyClipboard (\<lambda>_.
              bind_io (SetClipboardData_DIB (drop 14 bmp_data)) (\<lambda>_.
              bind_io CloseClipboard (\<lambda>_. return_io True)))))"
  define body where "body =
     bind_io (pure_io (if mode img \<noteq> RGB then image_convert_RGB img else Inr img)) (\<lambda>img'.
              bind_io (pure_io (image_save_BMP img')) wr)"
  have eq: "save_image_windows m img w =
      (case body w of
         (Inr r, w') \<Rightarrow> (r, w')
       | (Inl e, w') \<Rightarrow> (case CloseClipboard w' of (_, w'') \<Rightarrow> (False, w'')))"
    using True by (simp add: save_image_windows_def body_def wr_def)
  obtain b w1 where b: "body w = (b, w1)" by (cases "body w")
  show ?thesis
  proof (cases b)
    case (Inr ok)
    with b eq run have w1: "w' = w1" by simp
    from b Inr obtain bmp where "wr bmp w = (Inr ok, w1)"
      by (auto simp: body_def bind_io_def pure_io_def split: sum.splits)
    then have "\<not> lock_held w1"
      unfolding wr_def by (rule write_sequence_closes)
    with held w1 show ?thesis by simp
  next
    case (Inl e)
    obtain r2 w2 where c: "CloseClipboard w1 = (r2, w2)" by (cases "CloseClipboard w1")
    with b Inl eq run have "w' = w2" by simp
    with CloseClipboard_outcome [OF c] held show ?thesis by blast
  qed
qed

subsection \<open>Sample conversion of raw pixel buffers\<close>

lemma clamp_eq: "clamp_0_255 x = min (max x 0) 255"
  by (simp add: clamp_0_255_def min_def max_def)

lemma clamp_range: "0 \<le> clamp_0_255 x" "clamp_0_255 x \<le> 255"
  by (simp_all add: clamp_0_255_def)

lemma unat_byte_of_int: "0 \<le> k \<Longrightarrow> k \<le> 255 \<Longrightarrow> unat (word_of_int k :: byte) = nat k"
  by (simp add: unat_eq_nat_uint uint_word_of_int)

lemma floor_clamp_range: "0 \<le> \<lfloor>clamp_0_255 x\<rfloor>" "\<lfloor>clamp_0_255 x\<rfloor> \<le> 255"
  using clamp_range[of x] by (simp_all add: floor_le_iff le_floor_iff)

lemma to_uint8_clip: "unat (to_uint8 (min (max x 0) 255)) = clip_then_truncate x"
  using clamp_range[of x] floor_clamp_range[of x]
  by (simp add: clamp_eq[symmetric] to_uint8_def trunc_toward_zero_def
      clip_then_truncate_def unat_byte_of_int Let_def)

lemma astype_clip_samples:
  "samples (astype_uint8 (np_clip a 0 255)) = map (\<lambda>x. real (clip_then_truncate x)) (samples a)"
  unfolding astype_uint8_def np_clip_def
  by (simp add: to_uint8_clip comp_def del: of_nat_unat)

lemma clip_then_truncate_examples:
  "clip_then_truncate 300.7 = 255" "clip_then_truncate (- 5.2) = 0"
  "clip_then_truncate 127.9 = 127"
  by (simp_all add: clip_then_truncate_def clamp_0_255_def)

lemma to_uint8_of_nat: "to_uint8 (real n) = of_nat n"
  by (simp add: to_uint8_def trunc_toward_zero_def)

lemma fromarray_multichannel_rejected:
  "dtype a \<noteq> UInt8 \<Longrightarrow> length (shape a) = 3 \<Longrightarrow> image_fromarray a = Inl TypeError"
  by (auto simp: image_fromarray_def split: list.splits)

text \<open>
  C2, as stated: every buffer of \<open>save_image\<close> whose element type is not \<open>uint8\<close> is
  converted sample by sample, clamp first and then truncate. Under numpy 2.x the
  version gate skips the conversion and the buffer goes to PIL as it is; PIL rejects
  a three-channel float buffer, so the pixel (300.7, -5.2, 127.9) is not converted to
  (255, 0, 127): \<open>save_image\<close> returns \<open>False\<close> and nothing is written.
\<close>

theorem numpy2_multichannel_buffer_rejected:
  "dtype \<lparr>dtype = Float64, shape = [1, 1, 3], samples = [300.7, - 5.2, 127.9]\<rparr> \<noteq> UInt8
   \<and> convert_to_pil (sample_host (2, 3))
        (ImgArray \<lparr>dtype = Float64, shape = [1, 1, 3], samples = [300.7, - 5.2, 127.9]\<rparr>) = None
   \<and> save_image (sample_host (2, 3)) (mgr False True None)
        (ImgArray \<lparr>dtype = Float64, shape = [1, 1, 3], samples = [300.7, - 5.2, 127.9]\<rparr>)
        (idle_world NoContent []) = (False, idle_world NoContent [])"
  by (simp add: save_image_def convert_to_pil_def fromarray_input_def image_fromarray_def sample_host_def)

text \<open>
  C2, amended: for a buffer whose element type is not \<open>uint8\<close>, when the numpy version
  is below 2.0 the buffer reaches PIL as a \<open>uint8\<close> buffer of the same shape in which
  every sample was clamped to the range from 0 to 255 and then truncated toward zero
  (300.7 gives 255, -5.2 gives 0, 127.9 gives 127), and a buffer of three channels
  becomes the RGB image of these bytes. Under numpy 2.0 or later the buffer reaches
  PIL unconverted, and a three-dimensional one is rejected there: \<open>save_image\<close> returns
  \<open>False\<close> and leaves the world as it is.
\<close>

theorem raw_buffer_conversion_by_numpy_version:
  "dtype a \<noteq> UInt8 \<Longrightarrow>
     (\<not> tuple_ge (np_version h) (2, 0) \<longrightarrow>
        dtype (fromarray_input (np_version h) a) = UInt8
        \<and> shape (fromarray_input (np_version h) a) = shape a
        \<and> samples (fromarray_input (np_version h) a)
            = map (\<lambda>x. real (clip_then_truncate x)) (samples a)
        \<and> (\<forall>rows cols. shape a = [rows, cols, 3] \<longrightarrow>
              convert_to_pil h (ImgArray a) =
                Some \<lparr>mode = RGB, width = cols, height = rows,
                      pixels = map (\<lambda>x. of_nat (clip_then_truncate x)) (samples a),
                      numbers = []\<rparr>))
     \<and> (tuple_ge (np_version h) (2, 0) \<longrightarrow>
          fromarray_input (np_version h) a = a
          \<and> (length (shape a) = 3 \<longrightarrow>
                convert_to_pil h (ImgArray a) = None
                \<and> save_image h m (ImgArray a) w = (False, w)))
     \<and> clip_then_truncate 300.7 = 255
     \<and> clip_then_truncate (- 5.2) = 0
     \<and> clip_then_truncate 127.9 = 127"
proof -
  assume d: "dtype a \<noteq> UInt8"
  have old: "\<not> tuple_ge (np_version h) (2, 0) \<Longrightarrow>
        dtype (fromarray_input (np_version h) a) = UInt8
        \<and> shape (fromarray_input (np_version h) a) = shape a
        \<and> samples (fromarray_input (np_version h) a)
            = map (\<lambda>x. real (clip_then_truncate x)) (samples a)"
  proof -
    assume v: "\<not> tuple_ge (np_version h) (2, 0)"
    with d have eq: "fromarray_input (np_version h) a = astype_uint8 (np_clip a 0 255)"
      by (simp add: fromarray_input_def)
    have "dtype (astype_uint8 (np_clip a 0 255)) = UInt8"
      and "shape (astype_uint8 (np_clip a 0 255)) = shape a"
      by (simp_all add: astype_uint8_def np_clip_def)
    with eq astype_clip_samples [of a] show ?thesis by simp
  qed
  have img: "\<not> tuple_ge (np_version h) (2, 0) \<Longrightarrow> shape a = [rows, cols, 3] \<Longrightarrow>
              convert_to_pil h (ImgArray a) =
                Some \<lparr>mode = RGB, width = cols, height = rows,
                      pixels = map (\<lambda>x. of_nat (clip_then_truncate x)) (samples a),
                      numbers = []\<rparr>" for rows cols
  proof -
    assume v: "\<not> tuple_ge (np_version h) (2, 0)" and sh: "shape a = [rows, cols, 3]"
    from old [OF v] sh show ?thesis
      by (simp add: convert_to_pil_def image_fromarray_def array_image_def to_uint8_of_nat comp_def)
  qed
  have new: "tuple_ge (np_version h) (2, 0) \<Longrightarrow> fromarray_input (np_version h) a = a"
    by (simp add: fromarray_input_def)
  have rej: "tuple_ge (np_version h) (2, 0) \<Longrightarrow> length (shape a) = 3 \<Longrightarrow>
       convert_to_pil h (ImgArray a) = None \<and> save_image h m (ImgArray a) w = (False, w)"
    using d by (simp add: save_image_def convert_to_pil_def new fromarray_multichannel_rejected)
  from old img new rej clip_then_truncate_examples show ?thesis by blast
qed

theorem raw_buffer_conversion_witness:
  "dtype float_pixel \<noteq> UInt8
   \<and> \<not> tuple_ge (np_version (sample_host (1, 26))) (2, 0)
   \<and> convert_to_pil (sample_host (1, 26)) (ImgArray float_pixel) =
        Some \<lparr>mode = RGB, width = 1, height = 1, pixels = [255, 0, 127], numbers = []\<rparr>
   \<and> tuple_ge (np_version (sample_host (2, 3))) (2, 0)
   \<and> length (shape float_pixel) = 3
   \<and> fromarray_input (np_version (sample_host (2, 3))) float_pixel = float_pixel
   \<and> save_image (sample_host (2, 3)) (mgr False True None) (ImgArray float_pixel)
        (idle_world NoContent []) = (False, idle_world NoContent [])"
proof -
  have d: "dtype float_pixel \<noteq> UInt8" by (simp add: float_pixel_def)
  have v1: "\<not> tuple_ge (np_version (sample_host (1, 26))) (2, 0)" by (simp add: sample_host_def)
  have v2: "tuple_ge (np_version (sample_host (2, 3))) (2, 0)" by (simp add: sample_host_def)
  have sh: "shape float_pixel = [1, 1, 3]" by (simp add: float_pixel_def)
  have sm: "samples float_pixel = [300.7, - 5.2, 127.9]" by (simp add: float_pixel_def)
  from raw_buffer_conversion_by_numpy_version [OF d, of "sample_host (1, 26)"] v1 sh
  have a: "convert_to_pil (sample_host (1, 26)) (ImgArray float_pixel) =
        Some \<lparr>mode = RGB, width = 1, height = 1,
              pixels = map (\<lambda>x. of_nat (clip_then_truncate x)) (samples float_pixel),
              numbers = []\<rparr>"
    by blast
  have px: "map (\<lambda>x. of_nat (clip_then_truncate x)) (samples float_pixel) = [255, 0, 127 :: byte]"
    unfolding sm using clip_then_truncate_examples by simp
  from raw_buffer_conversion_by_numpy_version [OF d, of "sample_host (2, 3)" "mgr False True None" "idle_world NoContent []"] v2 sh
  have b: "fromarray_input (np_version (sample_host (2, 3))) float_pixel = float_pixel"
    and c: "save_image (sample_host (2, 3)) (mgr False True None) (ImgArray float_pixel)
        (idle_world NoContent []) = (False, idle_world NoContent [])"
    by simp_all
  from d v1 v2 sh a [unfolded px] b c show ?thesis by simp
qed

text \<open>
  A plane of floats under numpy 2.x is accepted by PIL as a mode F image, and it is
  PIL's conversion to RGB that clamps and truncates it.
\<close>

lemma numpy2_plane_converted_by_pil:
  "convert_to_pil (sample_host (2, 3))
     (ImgArray \<lparr>dtype = Float64, shape = [1, 3], samples = [300.7, - 5.2, 127.9]\<rparr>) =
     Some \<lparr>mode = ModeF, width = 3, height = 1, pixels = [],
           numbers = [300.7, - 5.2, 127.9]\<rparr>
   \<and> image_convert_RGB \<lparr>mode = ModeF, width = 3, height = 1, pixels = [],
           numbers = [300.7, - 5.2, 127.9]\<rparr> =
     Inr \<lparr>mode = RGB, width = 3, height = 1,
          pixels = [255, 255, 255, 0, 0, 0, 127, 127, 127], numbers = []\<rparr>"
  by (simp add: convert_to_pil_def fromarray_input_def image_fromarray_def plane_image_def
      array_image_def sample_host_def image_convert_RGB_def loadable_def l_to_rgb_def clip8_def)

subsection \<open>Reading text\<close>

text \<open>
  C3. \<open>get_text\<close> is to return the explicit "no text available" result, distinct from
  the empty string, whenever the clipboard holds no text or holds non-text content.
  With pyperclip available (the highest-priority backend) the value of \<open>paste()\<close> is
  returned as it is, and \<open>paste()\<close> gives the empty string for a clipboard without
  text: on an empty clipboard and on a clipboard holding a bitmap \<open>get_text\<close> returns
  the empty string.
\<close>

theorem get_text_pyperclip_returns_empty_string:
  "get_text (mgr True True (Some 0)) (idle_world NoContent []) =
     (Some [], (idle_world NoContent [])\<lparr>calls := [(CPyperclipPaste, True)]\<rparr>)
   \<and> get_text (mgr True True (Some 0)) (idle_world (DibContent [1, 2, 3]) []) =
     (Some [], (idle_world (DibContent [1, 2, 3]) [])\<lparr>calls := [(CPyperclipPaste, True)]\<rparr>)"
  by (simp add: get_text_def mgr_def idle_world_def io_defs pyperclip_defs)

subsection \<open>Writing text\<close>

lemma save_text_fast_backend:
  assumes "save_text m (PStr t) w = (r, w')" "has_pyperclip m"
  shows "(\<forall>c \<in> set (issued w w'). Some (backend_of (fst c)) = text_backend m) \<and>
     (r \<longrightarrow> issued w w' \<noteq> [] \<and> (\<forall>c \<in> set (issued w w'). snd c)) \<and>
     map fst (issued w w') = take (length (issued w w')) (write_script m t) \<and>
     (write_script m t \<noteq> [] \<longrightarrow> issued w w' \<noteq> []) \<and>
     (\<forall>c \<in> set (butlast (issued w w')). snd c) \<and>
     (r \<longleftrightarrow> write_script m t \<noteq> [] \<and> map fst (issued w w') = write_script m t
            \<and> (\<forall>c \<in> set (issued w w'). snd c)) \<and>
     (r \<longrightarrow> clip w' = TextContent t) \<and>
     ((\<forall>f \<in> set (faults w). \<not> f) \<and> text_backend m \<noteq> None
        \<and> (text_backend m = Some GuiToolkit \<longrightarrow> (\<exists>h. tk_root m = Some h \<and> h \<in> set (windows w)))
      \<longrightarrow> r)"
  using assms
  by (auto simp: save_text_def issued_def io_defs pyperclip_defs write_script_def text_backend_simps Let_def
      split: if_splits list.splits prod.splits sum.splits)

lemma save_text_native_backend:
  assumes "save_text m (PStr t) w = (r, w')" "\<not> has_pyperclip m" "has_win32 m"
  shows "(\<forall>c \<in> set (issued w w'). Some (backend_of (fst c)) = text_backend m) \<and>
     (r \<longrightarrow> issued w w' \<noteq> [] \<and> (\<forall>c \<in> set (issued w w'). snd c)) \<and>
     map fst (issued w w') = take (length (issued w w')) (write_script m t) \<and>
     (write_script m t \<noteq> [] \<longrightarrow> issued w w' \<noteq> []) \<and>
     (\<forall>c \<in> set (butlast (issued w w')). snd c) \<and>
     (r \<longleftrightarrow> write_script m t \<noteq> [] \<and> map fst (issued w w') = write_script m t
            \<and> (\<forall>c \<in> set (issued w w'). snd c)) \<and>
     (r \<longrightarrow> clip w' = TextContent t) \<and>
     ((\<forall>f \<in> set (faults w). \<not> f) \<and> text_backend m \<noteq> None
        \<and> (text_backend m = Some GuiToolkit \<longrightarrow> (\<exists>h. tk_root m = Some h \<and> h \<in> set (windows w)))
      \<longrightarrow> r)"
  using assms
  by (auto simp: save_text_def issued_def io_defs win32_defs write_script_def text_backend_simps Let_def
      split: if_splits list.splits prod.splits sum.splits)


lemma save_text_gui_backend:
  assumes "save_text m (PStr t) w = (r, w')" "\<not> has_pyperclip m" "\<not> has_win32 m" "has_tkinter m"
  shows "(\<forall>c \<in> set (issued w w'). Some (backend_of (fst c)) = text_backend m) \<and>
     (r \<longrightarrow> issued w w' \<noteq> [] \<and> (\<forall>c \<in> set (issued w w'). snd c)) \<and>
     map fst (issued w w') = take (length (issued w w')) (write_script m t) \<and>
     (write_script m t \<noteq> [] \<longrightarrow> issued w w' \<noteq> []) \<and>
     (\<forall>c \<in> set (butlast (issued w w')). snd c) \<and>
     (r \<longleftrightarrow> write_script m t \<noteq> [] \<and> map fst (issued w w') = write_script m t
            \<and> (\<forall>c \<in> set (issued w w'). snd c)) \<and>
     (r \<longrightarrow> clip w' = TextContent t) \<and>
     ((\<forall>f \<in> set (faults w). \<not> f) \<and> text_backend m \<noteq> None
        \<and> (text_backend m = Some GuiToolkit \<longrightarrow> (\<exists>h. tk_root m = Some h \<and> h \<in> set (windows w)))
      \<longrightarrow> r)"
  using assms
  by (cases "tk_root m")
    (auto simp: save_text_def issued_def io_defs tk_defs write_script_def text_backend_simps Let_def
      split: if_splits list.splits prod.splits sum.splits)

lemma save_text_no_backend:
  assumes "save_text m (PStr t) w = (r, w')" "\<not> has_pyperclip m" "\<not> has_win32 m" "\<not> has_tkinter m"
  shows "(\<forall>c \<in> set (issued w w'). Some (backend_of (fst c)) = text_backend m) \<and>
     (r \<longrightarrow> issued w w' \<noteq> [] \<and> (\<forall>c \<in> set (issued w w'). snd c)) \<and>
     map fst (issued w w') = take (length (issued w w')) (write_script m t) \<and>
     (write_script m t \<noteq> [] \<longrightarrow> issued w w' \<noteq> []) \<and>
     (\<forall>c \<in> set (butlast (issued w w')). snd c) \<and>
     (r \<longleftrightarrow> write_script m t \<noteq> [] \<and> map fst (issued w w') = write_script m t
            \<and> (\<forall>c \<in> set (issued w w'). snd c)) \<and>
     (r \<longrightarrow> clip w' = TextContent t) \<and>
     ((\<forall>f \<in> set (faults w). \<not> f) \<and> text_backend m \<noteq> None
        \<and> (text_backend m = Some GuiToolkit \<longrightarrow> (\<exists>h. tk_root m = Some h \<and> h \<in> set (windows w)))
      \<longrightarrow> r)"
  using assms
  by (auto simp: save_text_def issued_def io_defs write_script_def text_backend_simps)

text \<open>
  C4. On a text argument \<open>save_text\<close> delegates to the single highest-priority available
  text backend, in the fixed order fastTextLib, nativeApi, guiToolkit, which depends on
  the manager's flags only. In any world and for any text: every backend call it
  issues belongs to that backend; the calls are the write of that backend, in order,
  up to the first call that fails, and the first of them is always issued; the result
  is \<open>True\<close> exactly when the whole write was issued and every call succeeded, and then
  the clipboard holds the text; when no call fails for a reason of the library's own
  (and, for the GUI toolkit, the root window is alive) the result is \<open>True\<close>. So when
  the chosen backend fails, the result is \<open>False\<close> and no call went to a lower-priority
  backend.
\<close>

theorem save_text_single_backend:
  "save_text m (PStr t) w = (r, w') \<Longrightarrow>
     (\<forall>c \<in> set (issued w w'). Some (backend_of (fst c)) = text_backend m) \<and>
     (r \<longrightarrow> issued w w' \<noteq> [] \<and> (\<forall>c \<in> set (issued w w'). snd c)) \<and>
     map fst (issued w w') = take (length (issued w w')) (write_script m t) \<and>
     (write_script m t \<noteq> [] \<longrightarrow> issued w w' \<noteq> []) \<and>
     (\<forall>c \<in> set (butlast (issued w w')). snd c) \<and>
     (r \<longleftrightarrow> write_script m t \<noteq> [] \<and> map fst (issued w w') = write_script m t
            \<and> (\<forall>c \<in> set (issued w w'). snd c)) \<and>
     (r \<longrightarrow> clip w' = TextContent t) \<and>
     ((\<forall>f \<in> set (faults w). \<not> f) \<and> text_backend m \<noteq> None
        \<and> (text_backend m = Some GuiToolkit \<longrightarrow> (\<exists>h. tk_root m = Some h \<and> h \<in> set (windows w)))
      \<longrightarrow> r)"
proof -
  assume run: "save_text m (PStr t) w = (r, w')"
  show ?thesis
  proof (cases "has_pyperclip m")
    case True
    with run show ?thesis by (rule save_text_fast_backend)
  next
    case np: False
    show ?thesis
    proof (cases "has_win32 m")
      case True
      with run np show ?thesis by (rule save_text_native_backend)
    next
      case nw: False
      show ?thesis
      proof (cases "has_tkinter m")
        case True
        with run np nw show ?thesis by (rule save_text_gui_backend)
      next
        case False
        with run np nw show ?thesis by (rule save_text_no_backend)
      qed
    qed
  qed
qed

lemma save_text_run_pyperclip:
  "save_text (mgr True True (Some 0)) (PStr ''hi'') (idle_world NoContent []) =
     (True, (idle_world (TextContent ''hi'') [])\<lparr>calls := [(CPyperclipCopy ''hi'', True)]\<rparr>)"
  by (simp add: save_text_def mgr_def idle_world_def io_defs pyperclip_defs)

lemma save_text_run_pyperclip_failing:
  "save_text (mgr True True (Some 0)) (PStr ''hi'') (idle_world NoContent [True]) =
     (False, (idle_world NoContent [])\<lparr>calls := [(CPyperclipCopy ''hi'', False)]\<rparr>)"
  by (simp add: save_text_def mgr_def idle_world_def io_defs pyperclip_defs)

lemma save_text_run_gui:
  "save_text (mgr False False (Some 0)) (PStr ''hi'') (idle_world NoContent []) =
     (True, (idle_world (TextContent ''hi'') [])
        \<lparr>calls := [(CTkClipboardClear 0, True), (CTkClipboardAppend 0 ''hi'', True),
                   (CTkUpdate 0, True)]\<rparr>)"
  by (simp add: save_text_def mgr_def idle_world_def io_defs tk_defs)

theorem save_text_single_backend_witness:
  "save_text (mgr True True (Some 0)) (PStr ''hi'') (idle_world NoContent []) =
     (True, (idle_world (TextContent ''hi'') [])\<lparr>calls := [(CPyperclipCopy ''hi'', True)]\<rparr>)
   \<and> faults (idle_world NoContent []) = []
   \<and> text_backend (mgr True True (Some 0)) = Some FastTextLib
   \<and> write_script (mgr True True (Some 0)) ''hi'' = [CPyperclipCopy ''hi'']
   \<and> map fst (issued (idle_world NoContent [])
        ((idle_world (TextContent ''hi'') [])\<lparr>calls := [(CPyperclipCopy ''hi'', True)]\<rparr>))
      = [CPyperclipCopy ''hi'']
   \<and> save_text (mgr True True (Some 0)) (PStr ''hi'') (idle_world NoContent [True]) =
     (False, (idle_world NoContent [])\<lparr>calls := [(CPyperclipCopy ''hi'', False)]\<rparr>)
   \<and> issued (idle_world NoContent [True])
        ((idle_world NoContent [])\<lparr>calls := [(CPyperclipCopy ''hi'', False)]\<rparr>)
      = [(CPyperclipCopy ''hi'', False)]
   \<and> save_text (mgr False False (Some 0)) (PStr ''hi'') (idle_world NoContent []) =
     (True, (idle_world (TextContent ''hi'') [])
        \<lparr>calls := [(CTkClipboardClear 0, True), (CTkClipboardAppend 0 ''hi'', True),
                   (CTkUpdate 0, True)]\<rparr>)
   \<and> text_backend (mgr False False (Some 0)) = Some GuiToolkit
   \<and> (\<exists>h. tk_root (mgr False False (Some 0)) = Some h
            \<and> h \<in> set (windows (idle_world NoContent [])))"
proof -
  have tb: "text_backend (mgr True True (Some 0)) = Some FastTextLib"
    by (simp add: text_backend_simps mgr_def)
  have tbk: "text_backend (mgr False False (Some 0)) = Some GuiToolkit"
    by (simp add: text_backend_simps mgr_def)
  have ws: "write_script (mgr True True (Some 0)) ''hi'' = [CPyperclipCopy ''hi'']"
    by (simp add: write_script_def tb)
  have nf: "faults (idle_world NoContent []) = []"
    by (simp add: idle_world_def)
  have tr: "issued (idle_world NoContent [True])
        ((idle_world NoContent [])\<lparr>calls := [(CPyperclipCopy ''hi'', False)]\<rparr>)
      = [(CPyperclipCopy ''hi'', False)]"
    by (simp add: issued_def idle_world_def)
  have rt: "\<exists>h. tk_root (mgr False False (Some 0)) = Some h
            \<and> h \<in> set (windows (idle_world NoContent []))"
    by (simp add: mgr_def idle_world_def)
  from save_text_single_backend [OF save_text_run_pyperclip]
  have "map fst (issued (idle_world NoContent [])
        ((idle_world (TextContent ''hi'') [])\<lparr>calls := [(CPyperclipCopy ''hi'', True)]\<rparr>))
      = write_script (mgr True True (Some 0)) ''hi''"
    by blast
  with ws
  have a: "map fst (issued (idle_world NoContent [])
        ((idle_world (TextContent ''hi'') [])\<lparr>calls := [(CPyperclipCopy ''hi'', True)]\<rparr>))
      = [CPyperclipCopy ''hi'']"
    by simp
  from save_text_run_pyperclip save_text_run_pyperclip_failing save_text_run_gui tb tbk ws nf tr rt a
  show ?thesis by (intro conjI)
qed

text \<open>
  C5. For every argument that is not a text value \<open>save_text\<close> returns \<open>False\<close> and leaves
  the world as it is: no backend call is issued and the clipboard is unchanged.
\<close>

theorem save_text_rejects_non_text:
  "\<not> isinstance_str v \<Longrightarrow> save_text m v w = (False, w)"
  by (cases v) (simp_all add: save_text_def)

theorem save_text_rejects_non_text_witness:
  "\<not> isinstance_str (PInt 42) \<and>
   save_text (mgr True True (Some 0)) (PInt 42) (idle_world (TextContent ''old'') []) =
     (False, idle_world (TextContent ''old'') [])"
  using save_text_rejects_non_text
    [of "PInt 42" "mgr True True (Some 0)" "idle_world (TextContent ''old'') []"]
  by simp

subsection \<open>Writing images\<close>

lemma save_image_windows_encode_fails:
  assumes w32: "has_win32 m" and enc: "encode_dib img = Inl e"
  shows "save_image_windows m img w = (False, snd (CloseClipboard w))"
proof -
  have body: "bind_io (pure_io (if mode img \<noteq> RGB then image_convert_RGB img else Inr img)) (\<lambda>img'.
              bind_io (pure_io (image_save_BMP img')) (\<lambda>bmp_data.
              bind_io OpenClipboard (\<lambda>_.
              bind_io EmptyClipboard (\<lambda>_.
              bind_io (SetClipboardData_DIB (drop 14 bmp_data)) (\<lambda>_.
              bind_io CloseClipboard (\<lambda>_. return_io True)))))) w = (Inl e, w)"
    using enc
    by (cases "if mode img \<noteq> RGB then image_convert_RGB img else Inr img")
      (auto simp: encode_dib_def bind_io_def pure_io_def split: sum.splits)
  show ?thesis
    unfolding save_image_windows_def using w32
    by (simp add: body split: prod.splits)
qed

lemma CloseClipboard_effect:
  "map fst (issued w (snd (CloseClipboard w))) = [CCloseClipboard]
   \<and> clip (snd (CloseClipboard w)) = clip w
   \<and> (\<not> lock_held w \<longrightarrow> issued w (snd (CloseClipboard w)) = [(CCloseClipboard, False)])
   \<and> \<not> (lock_held (snd (CloseClipboard w)) \<and> \<not> lock_held w)"
  by (auto simp: CloseClipboard_def extcall_def issued_def Let_def split: list.splits)

text \<open>
  C6, amended: if normalization fails in \<open>_convert_to_pil\<close>, \<open>save_image\<close> returns \<open>False\<close>
  and leaves the world as it is (no clipboard call); the same holds if the native
  backend was not acquired at construction. If the image passes \<open>_convert_to_pil\<close> and
  only its conversion to RGB or its encoding fails, with the native backend available,
  \<open>save_image\<close> returns \<open>False\<close> after exactly one clipboard call, the handler's
  \<open>CloseClipboard\<close>, which leaves the clipboard content as it is and fails when the
  clipboard was not open. \<open>save_image\<close> always returns a boolean: no exception leaves it.
\<close>

theorem save_image_failure_paths:
  "(convert_to_pil h x = None \<longrightarrow> save_image h m x w = (False, w))
   \<and> (\<not> has_win32 m \<longrightarrow> save_image h m x w = (False, w))
   \<and> (has_win32 m \<and> convert_to_pil h x = Some img \<and> encode_dib img = Inl e \<longrightarrow>
         save_image h m x w = (False, snd (CloseClipboard w))
         \<and> map fst (issued w (snd (CloseClipboard w))) = [CCloseClipboard]
         \<and> clip (snd (CloseClipboard w)) = clip w
         \<and> (\<not> lock_held w \<longrightarrow>
               issued w (snd (CloseClipboard w)) = [(CCloseClipboard, False)]))"
proof (intro conjI impI)
  assume "convert_to_pil h x = None"
  then show "save_image h m x w = (False, w)" by (simp add: save_image_def)
next
  assume "\<not> has_win32 m"
  then show "save_image h m x w = (False, w)"
    by (simp add: save_image_def save_image_windows_def split: option.splits)
next
  assume a: "has_win32 m \<and> convert_to_pil h x = Some img \<and> encode_dib img = Inl e"
  then show "save_image h m x w = (False, snd (CloseClipboard w))"
    by (simp add: save_image_def save_image_windows_encode_fails)
qed (use CloseClipboard_effect [of w] in blast)+

lemma truncated_not_encodable: "encode_dib truncated_image = Inl OSError"
  by (simp add: encode_dib_def truncated_image_def image_save_BMP_def loadable_def)

lemma lazy_open: "convert_to_pil lazy_host (ImgStr ''cut.png'') = Some truncated_image"
  by (simp add: convert_to_pil_def lazy_host_def)

text \<open>
  C6, as stated: whenever normalization to the canonical image fails, \<open>save_image\<close> makes
  no clipboard call. An image file that opens lazily and turns out to be truncated
  passes \<open>_convert_to_pil\<close> and fails inside the \<open>try\<close> of \<open>_save_image_windows\<close>, whose
  handler calls \<open>CloseClipboard\<close>.
\<close>

theorem save_image_late_failure_calls_close:
  "convert_to_pil lazy_host (ImgStr ''cut.png'') = Some truncated_image
   \<and> encode_dib truncated_image = Inl OSError
   \<and> save_image lazy_host (mgr False True None) (ImgStr ''cut.png'') (idle_world NoContent []) =
       (False, (idle_world NoContent [])\<lparr>calls := [(CCloseClipboard, False)]\<rparr>)"
proof -
  have c: "has_win32 (mgr False True None)"
    by (simp add: mgr_def)
  have r: "save_image_windows (mgr False True None) truncated_image (idle_world NoContent []) =
             (False, snd (CloseClipboard (idle_world NoContent [])))"
    by (rule save_image_windows_encode_fails [OF c truncated_not_encodable])
  have e: "snd (CloseClipboard (idle_world NoContent [])) =
             (idle_world NoContent [])\<lparr>calls := [(CCloseClipboard, False)]\<rparr>"
    by (simp add: idle_world_def CloseClipboard_def extcall_def)
  show ?thesis
    by (simp add: lazy_open truncated_not_encodable save_image_def r e)
qed

theorem save_image_failure_paths_witness:
  "convert_to_pil (sample_host (2, 3)) ImgOther = None
   \<and> save_image (sample_host (2, 3)) (mgr True True None) ImgOther (idle_world NoContent [])
       = (False, idle_world NoContent [])
   \<and> \<not> has_win32 (mgr True False None)
   \<and> save_image (sample_host (2, 3)) (mgr True False None) (ImgPil (black_image 2 2))
        (idle_world NoContent []) = (False, idle_world NoContent [])
   \<and> has_win32 (mgr False True None)
   \<and> convert_to_pil lazy_host (ImgStr ''cut.png'') = Some truncated_image
   \<and> encode_dib truncated_image = Inl OSError
   \<and> \<not> lock_held (idle_world NoContent [])
   \<and> save_image lazy_host (mgr False True None) (ImgStr ''cut.png'') (idle_world NoContent [])
       = (False, snd (CloseClipboard (idle_world NoContent [])))
   \<and> issued (idle_world NoContent []) (snd (CloseClipboard (idle_world NoContent [])))
       = [(CCloseClipboard, False)]"
proof -
  have a: "convert_to_pil (sample_host (2, 3)) ImgOther = None"
    by (simp add: convert_to_pil_def)
  have b: "\<not> has_win32 (mgr True False None)"
    by (simp add: mgr_def)
  have c: "has_win32 (mgr False True None)"
    by (simp add: mgr_def)
  have d: "\<not> lock_held (idle_world NoContent [])"
    by (simp add: idle_world_def)
  from save_image_failure_paths [of "sample_host (2, 3)" ImgOther "mgr True True None" "idle_world NoContent []"] a
  have 1: "save_image (sample_host (2, 3)) (mgr True True None) ImgOther (idle_world NoContent [])
       = (False, idle_world NoContent [])" by blast
  from save_image_failure_paths [of "sample_host (2, 3)" "ImgPil (black_image 2 2)" "mgr True False None"
             "idle_world NoContent []"] b
  have 2: "save_image (sample_host (2, 3)) (mgr True False None) (ImgPil (black_image 2 2))
        (idle_world NoContent []) = (False, idle_world NoContent [])" by blast
  from save_image_failure_paths [of lazy_host "ImgStr ''cut.png''" "mgr False True None" "idle_world NoContent []"
             truncated_image OSError] c lazy_open truncated_not_encodable d
  have 3: "save_image lazy_host (mgr False True None) (ImgStr ''cut.png'') (idle_world NoContent [])
       = (False, snd (CloseClipboard (idle_world NoContent [])))"
    and 4: "issued (idle_world NoContent []) (snd (CloseClipboard (idle_world NoContent [])))
       = [(CCloseClipboard, False)]" by blast+
  from a b c d lazy_open truncated_not_encodable 1 2 3 4 show ?thesis by (intro conjI)
qed
















subsection \<open>Releasing the GUI fallback resource\<close>

text \<open>
  C8. Two calls of \<open>close\<close> in succession destroy the root window at most once. If the
  first call destroyed it, the second changes nothing but the trace of attempted calls:
  its \<open>destroy()\<close> raises inside the toolkit and the exception is swallowed. \<open>close\<close>
  returns normally in every case (it is a total function with no error result), and
  the clipboard and its lock are untouched.
\<close>

theorem close_twice:
  "releases (issued w (close m (close m w))) \<le> 1
   \<and> (releases (issued w (close m w)) = 1 \<longrightarrow>
        (close m (close m w))\<lparr>calls := calls (close m w), faults := faults (close m w)\<rparr> = close m w)
   \<and> clip (close m (close m w)) = clip w
   \<and> lock_held (close m (close m w)) = lock_held w"
  apply (cases "tk_root m")
  apply (auto simp: close_def releases_def issued_def io_defs tk_defs Let_def split: if_splits list.splits prod.splits sum.splits)
  done

lemma close_once:
  "close (mgr False False (Some 0)) (idle_world NoContent []) =
     (idle_world NoContent [])\<lparr>windows := [], calls := [(CTkDestroy 0, True)]\<rparr>"
  by (simp add: close_def mgr_def idle_world_def io_defs tk_defs)

lemma close_again:
  "close (mgr False False (Some 0))
      ((idle_world NoContent [])\<lparr>windows := [], calls := [(CTkDestroy 0, True)]\<rparr>) =
     (idle_world NoContent [])\<lparr>windows := [], calls := [(CTkDestroy 0, True), (CTkDestroy 0, False)]\<rparr>"
  by (simp add: close_def mgr_def idle_world_def io_defs tk_defs)

theorem close_twice_witness:
  "releases (issued (idle_world NoContent []) (close (mgr False False (Some 0)) (idle_world NoContent []))) = 1
   \<and> close (mgr False False (Some 0)) (close (mgr False False (Some 0)) (idle_world NoContent []))
       = (idle_world NoContent [])\<lparr>windows := [], calls := [(CTkDestroy 0, True), (CTkDestroy 0, False)]\<rparr>
   \<and> (close (mgr False False (Some 0)) (close (mgr False False (Some 0)) (idle_world NoContent [])))
        \<lparr>calls := calls (close (mgr False False (Some 0)) (idle_world NoContent [])),
         faults := faults (close (mgr False False (Some 0)) (idle_world NoContent []))\<rparr>
       = close (mgr False False (Some 0)) (idle_world NoContent [])"
proof -
  have r: "releases (issued (idle_world NoContent []) (close (mgr False False (Some 0)) (idle_world NoContent []))) = 1"
    by (simp add: close_once) (simp add: releases_def issued_def idle_world_def)
  have t: "close (mgr False False (Some 0)) (close (mgr False False (Some 0)) (idle_world NoContent []))
       = (idle_world NoContent [])\<lparr>windows := [], calls := [(CTkDestroy 0, True), (CTkDestroy 0, False)]\<rparr>"
    by (simp add: close_once close_again)
  from close_twice [of "idle_world NoContent []" "mgr False False (Some 0)"] r t show ?thesis by blast
qed

subsection \<open>Round trip of text\<close>

text \<open>
  C9, amended: when \<open>save_text(t)\<close> has succeeded and no backend call fails afterwards,
  \<open>get_text()\<close> on the resulting clipboard returns \<open>t\<close>, except on the native backend
  with the empty text, where it returns "no text available".
\<close>

theorem save_text_then_get_text:
  "save_text m (PStr t) w = (True, w1) \<Longrightarrow> faults w1 = [] \<Longrightarrow>
     fst (get_text m w1) = (if text_backend m = Some NativeApi \<and> t = [] then None else Some t)"
  apply (cases "has_pyperclip m"; cases "has_win32 m"; cases "has_tkinter m"; cases "tk_root m")
  apply (auto simp: save_text_def get_text_def io_defs win32_defs tk_defs pyperclip_defs text_backend_simps Let_def split: if_splits list.splits prod.splits sum.splits)
  done

lemma save_hello:
  "save_text (mgr False True None) (PStr ''hello'') (idle_world NoContent []) =
     (True, (idle_world (TextContent ''hello'') [])
        \<lparr>calls := [(COpenClipboard, True), (CEmptyClipboard, True),
                   (CSetClipboardText ''hello'', True), (CCloseClipboard, True)]\<rparr>)"
  by (simp add: save_text_def mgr_def idle_world_def io_defs win32_defs)

theorem save_text_then_get_text_witness:
  "save_text (mgr False True None) (PStr ''hello'') (idle_world NoContent []) =
     (True, (idle_world (TextContent ''hello'') [])
        \<lparr>calls := [(COpenClipboard, True), (CEmptyClipboard, True),
                   (CSetClipboardText ''hello'', True), (CCloseClipboard, True)]\<rparr>)
   \<and> faults ((idle_world (TextContent ''hello'') [])
        \<lparr>calls := [(COpenClipboard, True), (CEmptyClipboard, True),
                   (CSetClipboardText ''hello'', True), (CCloseClipboard, True)]\<rparr>) = []
   \<and> fst (get_text (mgr False True None) ((idle_world (TextContent ''hello'') [])
        \<lparr>calls := [(COpenClipboard, True), (CEmptyClipboard, True),
                   (CSetClipboardText ''hello'', True), (CCloseClipboard, True)]\<rparr>)) = Some ''hello''"
proof -
  have f: "faults ((idle_world (TextContent ''hello'') [])
        \<lparr>calls := [(COpenClipboard, True), (CEmptyClipboard, True),
                   (CSetClipboardText ''hello'', True), (CCloseClipboard, True)]\<rparr>) = []"
    by (simp add: idle_world_def)
  from save_text_then_get_text [OF save_hello f] save_hello f show ?thesis by simp
qed

text \<open>
  C9, as stated for all texts: on the native backend \<open>save_text('')\<close> succeeds and the
  following \<open>get_text()\<close> returns \<open>None\<close>, not the empty string, because the value read
  is tested for truth before it is returned.
\<close>

theorem native_empty_text_round_trip_fails:
  "fst (save_text (mgr False True None) (PStr []) (idle_world NoContent [])) = True
   \<and> fst (get_text (mgr False True None)
        (snd (save_text (mgr False True None) (PStr []) (idle_world NoContent [])))) = None"
  by (simp add: save_text_def get_text_def mgr_def idle_world_def io_defs win32_defs)

subsection \<open>The singleton\<close>





























end
